theory Spec2Isabelle
  imports Main "HOL-Library.Word"
begin

unbundle bit_operations_syntax

section \<open>Frame codec (protocol.py)\<close>

text \<open>
  A Python \<open>bytes\<close> value is a list of 8-bit words. A Python \<open>str\<close> is a list of
  Unicode code points (natural numbers), so that non-ASCII characters and the
  replacement character U+FFFD can be represented.
\<close>

type_synonym byte = "8 word"
type_synonym bytes = "byte list"
type_synonym pystr = "nat list"

definition STX :: byte where
  "STX = 0x02"

definition ETX :: byte where
  "ETX = 0x03"

datatype Command = MC | RQ

datatype SubCommand = DC | ID | IW | LZ | MI | ER | EZ | WP | PD | RT

text \<open>The \<open>value\<close> attribute of the two enumerations: the 2-byte ASCII codes.\<close>

fun Command_value :: "Command \<Rightarrow> bytes" where
  "Command_value MC = [0x4D, 0x43]"
| "Command_value RQ = [0x52, 0x51]"

fun SubCommand_value :: "SubCommand \<Rightarrow> bytes" where
  "SubCommand_value DC = [0x44, 0x43]"
| "SubCommand_value ID = [0x49, 0x44]"
| "SubCommand_value IW = [0x49, 0x57]"
| "SubCommand_value LZ = [0x4C, 0x5A]"
| "SubCommand_value MI = [0x4D, 0x49]"
| "SubCommand_value ER = [0x45, 0x52]"
| "SubCommand_value EZ = [0x45, 0x5A]"
| "SubCommand_value WP = [0x57, 0x50]"
| "SubCommand_value PD = [0x50, 0x44]"
| "SubCommand_value RT = [0x52, 0x54]"

text \<open>
  \<open>Command(b)\<close> and \<open>SubCommand(b)\<close>: the lookup of a member by value, which raises
  ValueError (here \<open>None\<close>) when no member has that value.
\<close>

definition Command_of :: "bytes \<Rightarrow> Command option" where
  "Command_of b = find (\<lambda>c. Command_value c = b) [MC, RQ]"

definition SubCommand_of :: "bytes \<Rightarrow> SubCommand option" where
  "SubCommand_of b = find (\<lambda>s. SubCommand_value s = b) [DC, ID, IW, LZ, MI, ER, EZ, WP, PD, RT]"

subsection \<open>Exceptions (exceptions.py)\<close>

text \<open>
  Every FrameError raised by the codec is the same Python class; the constructor argument
  records which message it carries, with the values formatted into it.
\<close>

datatype frame_msg =
    FrameTooShort nat
  | InvalidSTX byte
  | FrameTooShortForETX nat
  | ETXNotFound
  | UnknownCommand bytes
  | UnknownSubcommand bytes

datatype comm_msg = NotConnectedToBoard | NotConnectedToPort | SendFailed | ReceiveFailed

datatype exn =
    FrameError frame_msg
  | LRCError byte byte
  | CommunicationError comm_msg
  | TimeoutError
  | ResponseError
  | IndexError
  | KeyError
  | UnicodeDecodeError
  | UnicodeEncodeError
  | ValueError

subsection \<open>Frame.build and calculate_lrc\<close>

record Frame =
  command :: Command
  subcommand :: SubCommand
  data :: bytes

text \<open>The slice \<open>xs[a:b]\<close> for \<open>0 \<le> a\<close>, \<open>0 \<le> b\<close>: it clamps and never raises.\<close>

definition slice :: "'a list \<Rightarrow> nat \<Rightarrow> nat \<Rightarrow> 'a list" where
  "slice xs a b = take (b - a) (drop a xs)"

text \<open>\<open>calculate_lrc\<close>: the running XOR, from 0, over \<open>data[1:]\<close>.\<close>

definition calculate_lrc :: "bytes \<Rightarrow> byte" where
  "calculate_lrc dat = fold (\<lambda>b lrc. lrc XOR b) (drop 1 dat) 0"

definition build :: "Frame \<Rightarrow> bytes" where
  "build f =
     (let frame = [STX] @ Command_value (command f) @ SubCommand_value (subcommand f)
                    @ data f @ [ETX];
          lrc = calculate_lrc frame
      in frame @ [lrc])"

definition build_command_frame :: "Command \<Rightarrow> SubCommand \<Rightarrow> bytes \<Rightarrow> bytes" where
  "build_command_frame c s d = build \<lparr>command = c, subcommand = s, data = d\<rparr>"

subsection \<open>Frame.parse\<close>

text \<open>
  The fallback loop \<open>for i in range(len(raw) - 2, 4, -1)\<close>: it visits
  \<open>len(raw) - 2\<close>, \<dots>, 5 in this order and stops at the first index holding ETX.
  \<open>None\<close> stands for the sentinel \<open>etx_pos = -1\<close>.
\<close>

fun scan_etx :: "bytes \<Rightarrow> nat \<Rightarrow> nat option" where
  "scan_etx raw i =
     (if i \<le> 4 then None
      else if raw ! i = ETX then Some i
      else scan_etx raw (i - 1))"

declare scan_etx.simps [simp del]

definition locate_etx :: "bytes \<Rightarrow> exn + nat" where
  "locate_etx raw =
     (let etx_pos = length raw - 2 in
      if etx_pos < 5 then Inl (FrameError (FrameTooShortForETX (length raw)))
      else if raw ! etx_pos \<noteq> ETX then
        (case scan_etx raw (length raw - 2) of
           None \<Rightarrow> Inl (FrameError ETXNotFound)
         | Some p \<Rightarrow> Inr p)
      else Inr etx_pos)"

definition check_lrc :: "bytes \<Rightarrow> nat \<Rightarrow> exn option" where
  "check_lrc raw etx_pos =
     (let frame_for_lrc = take (etx_pos + 1) raw;
          expected_lrc = calculate_lrc frame_for_lrc;
          actual_lrc = (if etx_pos + 1 < length raw then raw ! (etx_pos + 1) else 0)
      in if expected_lrc \<noteq> actual_lrc then Some (LRCError expected_lrc actual_lrc) else None)"

definition parse :: "bytes \<Rightarrow> bool \<Rightarrow> exn + (Frame \<times> bytes)" where
  "parse raw validate_lrc =
     (if length raw < 7 then Inl (FrameError (FrameTooShort (length raw)))
      else if raw ! 0 \<noteq> STX then Inl (FrameError (InvalidSTX (raw ! 0)))
      else case locate_etx raw of
        Inl e \<Rightarrow> Inl e
      | Inr etx_pos \<Rightarrow>
          (case (if validate_lrc then check_lrc raw etx_pos else None) of
             Some e \<Rightarrow> Inl e
           | None \<Rightarrow>
              (let cmd_bytes = slice raw 1 3; subcmd_bytes = slice raw 3 5 in
               case Command_of cmd_bytes of
                 None \<Rightarrow> Inl (FrameError (UnknownCommand cmd_bytes))
               | Some c \<Rightarrow>
                  (case SubCommand_of subcmd_bytes of
                     None \<Rightarrow> Inl (FrameError (UnknownSubcommand subcmd_bytes))
                   | Some s \<Rightarrow>
                      (let d = slice raw 5 etx_pos
                       in Inr (\<lparr>command = c, subcommand = s, data = d\<rparr>, d))))))"

section \<open>Python string helpers\<close>

text \<open>\<open>data[i]\<close> for an index \<open>i \<ge> 0\<close>: raises IndexError out of range.\<close>

definition py_index :: "'a list \<Rightarrow> nat \<Rightarrow> exn + 'a" where
  "py_index xs i = (if i < length xs then Inr (xs ! i) else Inl IndexError)"

text \<open>\<open>str.isspace\<close> on one code point: the characters that \<open>str.strip()\<close> removes.\<close>

definition py_isspace :: "nat \<Rightarrow> bool" where
  "py_isspace c =
     (c \<in> {0x09, 0x0A, 0x0B, 0x0C, 0x0D, 0x1C, 0x1D, 0x1E, 0x1F, 0x20, 0x85, 0xA0,
            0x1680, 0x2000, 0x2001, 0x2002, 0x2003, 0x2004, 0x2005, 0x2006, 0x2007, 0x2008,
            0x2009, 0x200A, 0x2028, 0x2029, 0x202F, 0x205F, 0x3000})"

definition py_strip :: "pystr \<Rightarrow> pystr" where
  "py_strip s = rev (dropWhile py_isspace (rev (dropWhile py_isspace s)))"

text \<open>\<open>b.decode('ascii')\<close>: raises UnicodeDecodeError on a byte above 0x7F.\<close>

definition decode_ascii :: "bytes \<Rightarrow> exn + pystr" where
  "decode_ascii b = (if list_all (\<lambda>x. unat x < 128) b then Inr (map unat b) else Inl UnicodeDecodeError)"


text \<open>\<open>s.encode('ascii')\<close>: raises UnicodeEncodeError on a code point above 0x7F.\<close>

definition encode_ascii :: "pystr \<Rightarrow> exn + bytes" where
  "encode_ascii s = (if list_all (\<lambda>c. c < 128) s then Inr (map of_nat s) else Inl UnicodeEncodeError)"

section \<open>Byte channel (serial_comm.py)\<close>

text \<open>
  The serial port is the environment. For the exchange started by one \<open>send\<close> it fixes what
  the write does and what each following \<open>read(1)\<close> returns: a byte, nothing before the
  read deadline, or a SerialException. When the scripted reads are used up every further
  read returns nothing. The device is a function from the number of exchanges so far to
  the exchange that comes next. How long a read blocks is not modelled, so the timeout
  argument of \<open>receive_until_etx\<close> has no effect on the result.

  The connection state keeps a trace of the observable actions: every write handed to the
  port, every \<open>time.sleep\<close> that returned, and the final \<open>logger.error\<close> of a failed
  command (the only place that reads \<open>last_error\<close>). The debug and warning log lines are
  left out.
\<close>

datatype port_write = WriteOk | WriteTimeout | WriteFails

datatype port_read = Got byte | Nothing | Broken

record exchange =
  write_outcome :: port_write
  read_outcomes :: "port_read list"

type_synonym device = "nat \<Rightarrow> exchange"

datatype 'd event = PortWrite bytes | Slept 'd | LoggedFailure int "exn option"

record 'd conn =
  is_open :: bool
  inbuf :: "port_read list"
  exchanges :: nat
  events :: "'d event list"

definition is_connected :: "'d conn \<Rightarrow> bool" where
  "is_connected st = is_open st"

text \<open>
  \<open>SerialConnection.send\<close>: clears the input buffer, writes and flushes. The bytes the
  device answers with become the input of the reads that follow.
\<close>

definition send :: "device \<Rightarrow> bytes \<Rightarrow> 'd conn \<Rightarrow> (exn + nat) \<times> 'd conn" where
  "send dev dat st =
     (if \<not> is_connected st then (Inl (CommunicationError NotConnectedToPort), st)
      else
        (let ex = dev (exchanges st);
             st' = st\<lparr>inbuf := read_outcomes ex, exchanges := exchanges st + 1,
                      events := events st @ [PortWrite dat]\<rparr>
         in case write_outcome ex of
              WriteOk \<Rightarrow> (Inr (length dat), st')
            | WriteTimeout \<Rightarrow> (Inl TimeoutError, st')
            | WriteFails \<Rightarrow> (Inl (CommunicationError SendFailed), st')))"

text \<open>
  The loop of \<open>receive_until_etx\<close>: \<open>while len(data) < 500\<close>, read one byte; stop on a
  read that returns nothing (TimeoutError if nothing was received at all), and stop after
  the first byte other than 0x03 that follows a 0x03. It returns the unread outcomes too.
\<close>

fun recv_loop :: "port_read list \<Rightarrow> bytes \<Rightarrow> bool \<Rightarrow> (exn + bytes) \<times> port_read list" where
  "recv_loop [] dat etx_received =
     (if length dat < 500 \<and> dat = [] then (Inl TimeoutError, []) else (Inr dat, []))"
| "recv_loop (r # rs) dat etx_received =
     (if \<not> length dat < 500 then (Inr dat, r # rs)
      else case r of
        Nothing \<Rightarrow> (if dat = [] then (Inl TimeoutError, rs) else (Inr dat, rs))
      | Broken \<Rightarrow> (Inl (CommunicationError ReceiveFailed), rs)
      | Got b \<Rightarrow>
          (let dat' = dat @ [b] in
           if b = 0x03 then recv_loop rs dat' True
           else if etx_received then (Inr dat', rs)
           else recv_loop rs dat' etx_received))"

definition receive_until_etx :: "'d option \<Rightarrow> 'd conn \<Rightarrow> (exn + bytes) \<times> 'd conn" where
  "receive_until_etx tmo st =
     (if \<not> is_connected st then (Inl (CommunicationError NotConnectedToPort), st)
      else case recv_loop (inbuf st) [] False of (r, rest) \<Rightarrow> (r, st\<lparr>inbuf := rest\<rparr>))"

section \<open>Command dispatcher (io_board.py)\<close>

record 'd IOBoard =
  timeout :: 'd
  retry_count :: int
  retry_delay :: 'd
  validate_lrc :: bool

text \<open>Which exceptions the two layers of \<open>except\<close> clauses in \<open>send_command\<close> catch.\<close>

fun is_IOBoardError :: "exn \<Rightarrow> bool" where
  "is_IOBoardError (FrameError m) = True"
| "is_IOBoardError (LRCError a b) = True"
| "is_IOBoardError (CommunicationError m) = True"
| "is_IOBoardError TimeoutError = True"
| "is_IOBoardError ResponseError = True"
| "is_IOBoardError e = False"

fun is_Timeout_or_Communication :: "exn \<Rightarrow> bool" where
  "is_Timeout_or_Communication TimeoutError = True"
| "is_Timeout_or_Communication (CommunicationError m) = True"
| "is_Timeout_or_Communication e = False"

datatype attempt_result = Done bytes | Caught exn | Uncaught exn

definition outer_except :: "exn \<Rightarrow> attempt_result" where
  "outer_except e = (if is_Timeout_or_Communication e then Caught e else Uncaught e)"

text \<open>The body of the \<open>for attempt\<close> loop up to its \<open>except\<close> clauses: send, receive, parse.\<close>

definition attempt_body ::
  "'d IOBoard \<Rightarrow> device \<Rightarrow> bytes \<Rightarrow> 'd option \<Rightarrow> 'd conn \<Rightarrow> attempt_result \<times> 'd conn" where
  "attempt_body io dev tx_frame tmo st =
     (case send dev tx_frame st of
        (Inl e, st1) \<Rightarrow> (outer_except e, st1)
      | (Inr n, st1) \<Rightarrow>
          (let rx_timeout = (case tmo of Some t \<Rightarrow> t | None \<Rightarrow> timeout io) in
           case receive_until_etx (Some rx_timeout) st1 of
             (Inl e, st2) \<Rightarrow> (outer_except e, st2)
           | (Inr rx_data, st2) \<Rightarrow>
               (case parse rx_data (validate_lrc io) of
                  Inr (frame, response_data) \<Rightarrow> (Done response_data, st2)
                | Inl e \<Rightarrow> (if is_IOBoardError e then Caught e else outer_except e, st2))))"

datatype loop_result = Returned bytes | Raised exn | Exhausted "exn option"

text \<open>
  \<open>time.sleep\<close> is a built-in of Python and a parameter here: \<open>time_sleep d\<close> is \<open>None\<close>
  where \<open>time.sleep(d)\<close> returns after sleeping and \<open>Some e\<close> where it raises \<open>e\<close>
  (ValueError for a negative delay and for NaN). The call stands after the \<open>try\<close>
  statement of the loop body, so what it raises is caught by no handler and leaves
  \<open>send_command\<close>.
\<close>

type_synonym 'd sleeper = "'d \<Rightarrow> exn option"

text \<open>
  \<open>for attempt in range(self.retry_count)\<close>: the first numeric argument counts the
  iterations still to run, the second is \<open>attempt\<close>, the third \<open>last_error\<close>.
\<close>

fun retry_loop ::
  "'d sleeper \<Rightarrow> 'd IOBoard \<Rightarrow> device \<Rightarrow> bytes \<Rightarrow> 'd option \<Rightarrow> nat \<Rightarrow> int \<Rightarrow> exn option
     \<Rightarrow> 'd conn \<Rightarrow> loop_result \<times> 'd conn" where
  "retry_loop time_sleep io dev tx_frame tmo 0 attempt last_error st = (Exhausted last_error, st)"
| "retry_loop time_sleep io dev tx_frame tmo (Suc k) attempt last_error st =
     (case attempt_body io dev tx_frame tmo st of
        (Done response_data, st1) \<Rightarrow> (Returned response_data, st1)
      | (Uncaught e, st1) \<Rightarrow> (Raised e, st1)
      | (Caught e, st1) \<Rightarrow>
          (if attempt < retry_count io - 1 then
             (case time_sleep (retry_delay io) of
                Some err \<Rightarrow> (Raised err, st1)
              | None \<Rightarrow>
                  retry_loop time_sleep io dev tx_frame tmo k (attempt + 1) (Some e)
                    (st1\<lparr>events := events st1 @ [Slept (retry_delay io)]\<rparr>))
           else retry_loop time_sleep io dev tx_frame tmo k (attempt + 1) (Some e) st1))"

definition send_command ::
  "'d sleeper \<Rightarrow> 'd IOBoard \<Rightarrow> device \<Rightarrow> Command \<Rightarrow> SubCommand \<Rightarrow> bytes \<Rightarrow> 'd option
     \<Rightarrow> 'd conn \<Rightarrow> (exn + bool \<times> bytes) \<times> 'd conn" where
  "send_command time_sleep io dev c s d tmo st =
     (if \<not> is_connected st then (Inl (CommunicationError NotConnectedToBoard), st)
      else
        (let tx_frame = build_command_frame c s d in
         case retry_loop time_sleep io dev tx_frame tmo (nat (retry_count io)) 0 None st of
           (Returned response_data, st') \<Rightarrow> (Inr (True, response_data), st')
         | (Raised e, st') \<Rightarrow> (Inl e, st')
         | (Exhausted last_error, st') \<Rightarrow>
             (Inr (False, []),
              st'\<lparr>events := events st' @ [LoggedFailure (retry_count io) last_error]\<rparr>)))"

section \<open>Domain decoders\<close>

text \<open>
  A decoder holds any object with a \<open>send_command\<close> method and calls it with the command,
  the subcommand and (optionally) the payload. A dispatcher is therefore a function on
  some state; the IOBoard above is one instance, the mocks of the test suite are others.
\<close>

type_synonym 's dispatcher =
  "Command \<Rightarrow> SubCommand \<Rightarrow> bytes \<Rightarrow> 's \<Rightarrow> (exn + bool \<times> bytes) \<times> 's"

definition IOBoard_dispatcher ::
  "'d sleeper \<Rightarrow> 'd IOBoard \<Rightarrow> device \<Rightarrow> 'd conn dispatcher" where
  "IOBoard_dispatcher time_sleep io dev c s d st = send_command time_sleep io dev c s d None st"

text \<open>
  The mock of the tests: \<open>send_command.return_value = (ok, payload)\<close>, and a wrapper that
  records every call, as \<open>assert_called_once_with\<close> and \<open>assert_not_called\<close> read it.
\<close>

definition replying :: "bool \<Rightarrow> bytes \<Rightarrow> 's dispatcher" where
  "replying ok payload c s d st = (Inr (ok, payload), st)"

definition recording ::
  "'s dispatcher \<Rightarrow> ((Command \<times> SubCommand \<times> bytes) list \<times> 's) dispatcher" where
  "recording io c s d cst =
     (case io c s d (snd cst) of (r, st') \<Rightarrow> (r, (fst cst @ [(c, s, d)], st')))"

subsection \<open>DeadBolt (deadbolt.py)\<close>

datatype DoorStatus = OPENED | CLOSED | UNKNOWN

datatype LockStatus = LOCKED | UNLOCKED | UNKNOWN

definition DOOR_STATUS_MAP :: "byte \<rightharpoonup> DoorStatus" where
  "DOOR_STATUS_MAP = [0x4F \<mapsto> OPENED, 0x43 \<mapsto> CLOSED]"

definition LOCK_STATUS_MAP :: "byte \<rightharpoonup> LockStatus" where
  "LOCK_STATUS_MAP = [0x4C \<mapsto> LOCKED, 0x55 \<mapsto> UNLOCKED]"

text \<open>\<open>m.get(k, default)\<close>: never raises.\<close>

definition dict_get :: "('k \<rightharpoonup> 'v) \<Rightarrow> 'k \<Rightarrow> 'v \<Rightarrow> 'v" where
  "dict_get m k dflt = (case m k of None \<Rightarrow> dflt | Some v \<Rightarrow> v)"

definition MIN_RESPONSE_LENGTH :: nat where
  "MIN_RESPONSE_LENGTH = 7"

definition get_status :: "'s dispatcher \<Rightarrow> 's \<Rightarrow> (exn + DoorStatus \<times> LockStatus) \<times> 's" where
  "get_status io st =
     (case io RQ ID [] st of
        (Inl e, st') \<Rightarrow> (Inl e, st')
      | (Inr (success, dat), st') \<Rightarrow>
          (if \<not> success then (Inr (DoorStatus.UNKNOWN, LockStatus.UNKNOWN), st')
           else if length dat < MIN_RESPONSE_LENGTH
             then (Inr (DoorStatus.UNKNOWN, LockStatus.UNKNOWN), st')
           else
             (let body =
                (case py_index dat 0 of
                   Inl e \<Rightarrow> Inl e
                 | Inr door_byte \<Rightarrow>
                     (let door_status = dict_get DOOR_STATUS_MAP door_byte DoorStatus.UNKNOWN in
                      case py_index dat 6 of
                        Inl e \<Rightarrow> Inl e
                      | Inr lock_byte \<Rightarrow>
                          (let lock_status = dict_get LOCK_STATUS_MAP lock_byte LockStatus.UNKNOWN
                           in Inr (door_status, lock_status))))
              in case body of
                   Inr r \<Rightarrow> (Inr r, st')
                 | Inl e \<Rightarrow> (if e = IndexError \<or> e = KeyError then Inl ResponseError else Inl e, st'))))"

subsection \<open>LoadCell (loadcell.py)\<close>

definition NUM_CHANNELS :: nat where
  "NUM_CHANNELS = 10"

definition BYTES_PER_CHANNEL :: nat where
  "BYTES_PER_CHANNEL = 6"

definition TOTAL_DATA_BYTES :: nat where
  "TOTAL_DATA_BYTES = NUM_CHANNELS * BYTES_PER_CHANNEL"






subsection \<open>SystemManager (system.py)\<close>

definition PRODUCTION_NUMBER_LENGTH :: nat where
  "PRODUCTION_NUMBER_LENGTH = 11"

record SystemInfo =
  production_number :: pystr
  info_raw :: bytes

definition get_info :: "'s dispatcher \<Rightarrow> 's \<Rightarrow> (exn + SystemInfo) \<times> 's" where
  "get_info io st =
     (case io RQ MI [] st of
        (Inl e, st') \<Rightarrow> (Inl e, st')
      | (Inr (success, dat), st') \<Rightarrow>
          (if \<not> success then (Inr \<lparr>production_number = [], info_raw = []\<rparr>, st')
           else
             (let raw_bytes = slice dat 0 PRODUCTION_NUMBER_LENGTH in
              case decode_ascii raw_bytes of
                Inr s \<Rightarrow> (Inr \<lparr>production_number = py_strip s, info_raw = dat\<rparr>, st')
              | Inl e \<Rightarrow>
                  (if e = IndexError \<or> e = UnicodeDecodeError then Inl ResponseError else Inl e,
                   st'))))"

definition set_production_number :: "'s dispatcher \<Rightarrow> pystr \<Rightarrow> 's \<Rightarrow> (exn + bool) \<times> 's" where
  "set_production_number io number st =
     (if number = [] then (Inr False, st)
      else case encode_ascii number of
        Inl e \<Rightarrow> (if e = UnicodeEncodeError then (Inr False, st) else (Inl e, st))
      | Inr d \<Rightarrow>
          (case io MC WP d st of
             (Inl e, st') \<Rightarrow> (Inl e, st')
           | (Inr (success, payload), st') \<Rightarrow> (Inr success, st')))"

text \<open>
  The production number as the specification words it: the first 11 payload bytes decoded
  as ASCII and trimmed on the right only.
\<close>

definition py_rstrip :: "pystr \<Rightarrow> pystr" where
  "py_rstrip s = rev (dropWhile py_isspace (rev s))"

definition spec_production_number :: "bytes \<Rightarrow> pystr" where
  "spec_production_number dat = py_rstrip (map unat (take 11 dat))"

section \<open>Auxiliary notions used in the statements\<close>

text \<open>The XOR of all bytes of a buffer.\<close>

definition xor_of :: "bytes \<Rightarrow> byte" where
  "xor_of xs = foldr (XOR) xs 0"

text \<open>The first five bytes that \<open>build\<close> emits: STX, command code, subcommand code.\<close>

definition frame_header :: "Frame \<Rightarrow> bytes" where
  "frame_header f = STX # Command_value (command f) @ SubCommand_value (subcommand f)"

text \<open>
  The literals \<open>b'...'\<close> and \<open>'...'\<close> with ASCII content, to write payloads and
  strings readably.
\<close>

definition bytes_of :: "string \<Rightarrow> bytes" where
  "bytes_of s = map of_char s"

definition str_of :: "string \<Rightarrow> pystr" where
  "str_of s = map of_char s"

text \<open>
  Two devices used to run the dispatcher. Both never answer, so that every receive times
  out; the first accepts every write, the second lets the third write fail.
\<close>

definition silent_device :: device where
  "silent_device k = \<lparr>write_outcome = WriteOk, read_outcomes = []\<rparr>"

definition third_write_fails_device :: device where
  "third_write_fails_device k =
     \<lparr>write_outcome = (if k = 2 then WriteFails else WriteOk), read_outcomes = []\<rparr>"

text \<open>
  A stand-in for \<open>time.sleep\<close> with whole numbers for delays, used only to run the
  dispatcher on concrete configurations: a negative delay raises ValueError.
\<close>

definition sleep_nonnegative :: "int sleeper" where
  "sleep_nonnegative d = (if d < 0 then Some ValueError else None)"

section \<open>Properties of the frame codec\<close>

lemma length_Command_value: "length (Command_value c) = 2"
  by (cases c) simp_all

lemma length_SubCommand_value: "length (SubCommand_value s) = 2"
  by (cases s) simp_all

lemma Command_of_value: "Command_of (Command_value c) = Some c"
  by (cases c) (simp_all add: Command_of_def)

lemma SubCommand_of_value: "SubCommand_of (SubCommand_value s) = Some s"
  by (cases s) (simp_all add: SubCommand_of_def)

lemma fold_xor_acc: "fold (\<lambda>b lrc. lrc XOR b) xs (acc :: byte) = acc XOR foldr (XOR) xs 0"
  by (induction xs arbitrary: acc) (simp_all add: xor.assoc)

lemma calculate_lrc_xor_of: "calculate_lrc dat = xor_of (drop 1 dat)"
  by (simp add: calculate_lrc_def xor_of_def fold_xor_acc)

lemma build_eq:
  "build f = STX # Command_value (command f) @ SubCommand_value (subcommand f) @ data f
               @ [ETX, xor_of (Command_value (command f) @ SubCommand_value (subcommand f)
                                 @ data f @ [ETX])]"
  by (simp add: build_def Let_def calculate_lrc_xor_of)

lemma length_build: "length (build f) = 7 + length (data f)"
  by (simp add: build_eq length_Command_value length_SubCommand_value)

lemma length_frame_header: "length (frame_header f) = 5"
  by (simp add: frame_header_def length_Command_value length_SubCommand_value)

lemma build_frame_header:
  "build f = frame_header f @ data f @ [ETX, xor_of (drop 1 (frame_header f) @ data f @ [ETX])]"
  by (simp add: build_eq frame_header_def)

lemma build_nth_etx: "n = length (data f) + 5 \<Longrightarrow> build f ! n = ETX"
  by (simp add: build_frame_header nth_append length_frame_header)

lemma build_nth_lrc:
  "n = length (data f) + 6 \<Longrightarrow> build f ! n = xor_of (drop 1 (frame_header f) @ data f @ [ETX])"
  by (simp add: build_frame_header nth_append length_frame_header)

lemma build_nth0: "build f ! 0 = STX"
  by (simp add: build_eq)

lemma slice_build_cmd: "slice (build f) 1 3 = Command_value (command f)"
  by (simp add: build_eq slice_def length_Command_value)

lemma slice_build_sub: "slice (build f) 3 5 = SubCommand_value (subcommand f)"
proof -
  have "drop 3 (build f) = SubCommand_value (subcommand f) @ data f
          @ [ETX, xor_of (drop 1 (frame_header f) @ data f @ [ETX])]"
    by (cases "command f") (simp_all add: build_eq frame_header_def)
  then show ?thesis
    by (simp add: slice_def length_SubCommand_value)
qed

lemma slice_build_data: "n = length (data f) + 5 \<Longrightarrow> slice (build f) 5 n = data f"
  by (simp add: build_frame_header slice_def length_frame_header)

lemma take_build:
  "n = length (data f) + 6 \<Longrightarrow> take n (build f) = frame_header f @ data f @ [ETX]"
  by (simp add: build_frame_header length_frame_header)

lemma locate_etx_build: "locate_etx (build f) = Inr (length (data f) + 5)"
  by (simp add: locate_etx_def Let_def length_build build_nth_etx)

lemma check_lrc_build: "n = length (data f) + 5 \<Longrightarrow> check_lrc (build f) n = None"
  by (simp add: check_lrc_def Let_def take_build build_nth_lrc length_build
      calculate_lrc_xor_of length_frame_header)

subsection \<open>Round trip\<close>

text \<open>
  Claim C1. For every frame whose command and subcommand are members of the two
  enumerations and whose payload contains no ETX byte, parsing the bytes that \<open>build\<close>
  emits succeeds and returns the frame itself together with its payload, whether the
  checksum is validated or not.
\<close>

theorem parse_build_roundtrip:
  "ETX \<notin> set (data f) \<Longrightarrow> parse (build f) validate = Inr (f, data f)"
  by (simp add: parse_def length_build build_nth0 locate_etx_build check_lrc_build
      slice_build_cmd slice_build_sub slice_build_data Command_of_value SubCommand_of_value
      Let_def del: One_nat_def)

theorem parse_build_roundtrip_witness:
  "ETX \<notin> set (data \<lparr>command = MC, subcommand = DC, data = [0x4F]\<rparr>)
   \<and> parse (build \<lparr>command = MC, subcommand = DC, data = [0x4F]\<rparr>) True
       = Inr (\<lparr>command = MC, subcommand = DC, data = [0x4F]\<rparr>, [0x4F])"
proof -
  have h: "ETX \<notin> set (data \<lparr>command = MC, subcommand = DC, data = [0x4F]\<rparr>)"
    by (simp add: ETX_def)
  from parse_build_roundtrip [OF h, of True] h show ?thesis
    by simp
qed

subsection \<open>Checksum\<close>

text \<open>
  Claim C5. \<open>calculate_lrc\<close> does not depend on the first byte of its argument: two
  buffers that differ only there have the same checksum. The last byte that \<open>build\<close>
  emits is the XOR of the command, subcommand, payload and ETX bytes, which are the bytes
  of the frame from index 1 up to and including the ETX byte at index \<open>length - 2\<close>.
\<close>

theorem lrc_covers_command_through_etx:
  "calculate_lrc (a # xs) = calculate_lrc (b # xs)
   \<and> last (build f) = xor_of (Command_value (command f) @ SubCommand_value (subcommand f)
                               @ data f @ [ETX])
   \<and> last (build f) = xor_of (slice (build f) 1 (length (build f) - 1))
   \<and> build f ! (length (build f) - 2) = ETX"
proof -
  let ?body = "Command_value (command f) @ SubCommand_value (subcommand f) @ data f"
  have b: "build f = STX # (?body @ [ETX]) @ [xor_of (?body @ [ETX])]"
    by (simp add: build_eq)
  have 1: "calculate_lrc (a # xs) = calculate_lrc (b # xs)"
    by (simp add: calculate_lrc_def)
  have 2: "last (build f) = xor_of (?body @ [ETX])"
    by (simp add: build_eq)
  have 3: "slice (build f) 1 (length (build f) - 1) = ?body @ [ETX]"
    unfolding b slice_def by simp
  have 4: "build f ! (length (build f) - 2) = ETX"
    unfolding b by (simp add: nth_append)
  show ?thesis using 1 2 3 4 by simp
qed

subsection \<open>Start byte\<close>

text \<open>
  Claim C7, as amended. For every buffer of at least 7 bytes whose first byte is not STX,
  \<open>parse\<close> fails with the invalid-STX frame error, whatever the rest of the buffer holds.
  (A shorter buffer fails the length check, which comes first.)
\<close>

theorem parse_bad_start:
  "7 \<le> length raw \<Longrightarrow> raw ! 0 \<noteq> STX
     \<Longrightarrow> parse raw validate = Inl (FrameError (InvalidSTX (raw ! 0)))"
  by (simp add: parse_def)

theorem parse_bad_start_witness:
  "7 \<le> length [0x00, 0x4D, 0x43, 0x44, 0x43, 0x03, 0x00 :: byte]
   \<and> [0x00, 0x4D, 0x43, 0x44, 0x43, 0x03, 0x00] ! 0 \<noteq> STX
   \<and> parse [0x00, 0x4D, 0x43, 0x44, 0x43, 0x03, 0x00] False = Inl (FrameError (InvalidSTX 0x00))"
proof -
  have h1: "7 \<le> length [0x00, 0x4D, 0x43, 0x44, 0x43, 0x03, 0x00 :: byte]"
    by simp
  have h2: "[0x00, 0x4D, 0x43, 0x44, 0x43, 0x03, 0x00] ! 0 \<noteq> STX"
    by (simp add: STX_def)
  from parse_bad_start [OF h1 h2, of False] h1 h2 show ?thesis
    by simp
qed

text \<open>
  The claim as stated fails on a short buffer: the three bytes 00 4D 43 do not start with
  STX, and \<open>parse\<close> reports that the frame is too short, not that the start byte is wrong.
\<close>

theorem parse_short_buffer_not_bad_start:
  "[0x00, 0x4D, 0x43] ! 0 \<noteq> STX
   \<and> parse [0x00, 0x4D, 0x43] False = Inl (FrameError (FrameTooShort 3))
   \<and> parse [0x00, 0x4D, 0x43] False \<noteq> Inl (FrameError (InvalidSTX 0x00))"
  by (simp add: parse_def STX_def)

subsection \<open>Locating ETX\<close>

lemma scan_etx_None:
  "scan_etx raw n = None \<longleftrightarrow> (\<forall>i. 5 \<le> i \<and> i \<le> n \<longrightarrow> raw ! i \<noteq> ETX)"
proof (induction raw n rule: scan_etx.induct)
  case (1 raw i)
  show ?case
  proof (cases "i \<le> 4")
    case True
    then show ?thesis by (auto simp: scan_etx.simps)
  next
    case False
    show ?thesis
    proof (cases "raw ! i = ETX")
      case True
      with False have "5 \<le> i \<and> i \<le> i \<and> raw ! i = ETX" by simp
      then have "\<not> (\<forall>j. 5 \<le> j \<and> j \<le> i \<longrightarrow> raw ! j \<noteq> ETX)" by blast
      with True False show ?thesis by (simp add: scan_etx.simps [of raw i])
    next
      case ne: False
      have "(\<forall>j. 5 \<le> j \<and> j \<le> i \<longrightarrow> raw ! j \<noteq> ETX)
              \<longleftrightarrow> (\<forall>j. 5 \<le> j \<and> j \<le> i - 1 \<longrightarrow> raw ! j \<noteq> ETX)"
      proof
        assume "\<forall>j. 5 \<le> j \<and> j \<le> i \<longrightarrow> raw ! j \<noteq> ETX"
        then show "\<forall>j. 5 \<le> j \<and> j \<le> i - 1 \<longrightarrow> raw ! j \<noteq> ETX" by auto
      next
        assume a: "\<forall>j. 5 \<le> j \<and> j \<le> i - 1 \<longrightarrow> raw ! j \<noteq> ETX"
        show "\<forall>j. 5 \<le> j \<and> j \<le> i \<longrightarrow> raw ! j \<noteq> ETX"
        proof (intro allI impI)
          fix j assume j: "5 \<le> j \<and> j \<le> i"
          show "raw ! j \<noteq> ETX"
          proof (cases "j = i")
            case True then show ?thesis using ne by simp
          next
            case False
            with j have "5 \<le> j \<and> j \<le> i - 1" by arith
            with a show ?thesis by blast
          qed
        qed
      qed
      with 1 False ne show ?thesis by (simp add: scan_etx.simps [of raw i])
    qed
  qed
qed

lemma scan_etx_Some:
  "scan_etx raw n = Some p \<Longrightarrow>
     5 \<le> p \<and> p \<le> n \<and> raw ! p = ETX \<and> (\<forall>i. p < i \<and> i \<le> n \<longrightarrow> raw ! i \<noteq> ETX)"
proof (induction raw n rule: scan_etx.induct)
  case (1 raw i)
  show ?case
  proof (cases "i \<le> 4")
    case True
    with 1(2) show ?thesis by (simp add: scan_etx.simps)
  next
    case False
    show ?thesis
    proof (cases "raw ! i = ETX")
      case True
      with False 1(2) have "p = i" by (simp add: scan_etx.simps [of raw i])
      with True False show ?thesis by auto
    next
      case ne: False
      with False 1(2) have "scan_etx raw (i - 1) = Some p"
        by (simp add: scan_etx.simps [of raw i])
      from 1(1) [OF False ne this]
      have ih: "5 \<le> p \<and> p \<le> i - 1 \<and> raw ! p = ETX
                 \<and> (\<forall>j. p < j \<and> j \<le> i - 1 \<longrightarrow> raw ! j \<noteq> ETX)" .
      have "\<forall>j. p < j \<and> j \<le> i \<longrightarrow> raw ! j \<noteq> ETX"
      proof (intro allI impI)
        fix j assume j: "p < j \<and> j \<le> i"
        show "raw ! j \<noteq> ETX"
        proof (cases "j = i")
          case True then show ?thesis using ne by simp
        next
          case False
          with j have "p < j \<and> j \<le> i - 1" by arith
          with ih show ?thesis by blast
        qed
      qed
      with ih show ?thesis by auto
    qed
  qed
qed

lemma last_etx_unique:
  assumes "5 \<le> p \<and> p \<le> n \<and> raw ! p = ETX \<and> (\<forall>i. p < i \<and> i \<le> n \<longrightarrow> raw ! i \<noteq> ETX)"
    and "5 \<le> q \<and> q \<le> n \<and> raw ! q = ETX \<and> (\<forall>i. q < i \<and> i \<le> n \<longrightarrow> raw ! i \<noteq> ETX)"
  shows "p = (q::nat)"
proof (rule ccontr)
  assume "p \<noteq> q"
  then consider "p < q" | "q < p" by arith
  then show False using assms by cases auto
qed

lemma locate_etx_last:
  assumes len: "7 \<le> length raw"
    and p: "5 \<le> p \<and> p \<le> length raw - 2 \<and> raw ! p = ETX
            \<and> (\<forall>i. p < i \<and> i \<le> length raw - 2 \<longrightarrow> raw ! i \<noteq> ETX)"
  shows "locate_etx raw = Inr p"
proof (cases "raw ! (length raw - 2) = ETX")
  case True
  have "p = length raw - 2"
  proof (rule ccontr)
    assume "p \<noteq> length raw - 2"
    with p have "p < length raw - 2 \<and> length raw - 2 \<le> length raw - 2" by arith
    with p True show False by blast
  qed
  with True len show ?thesis by (simp add: locate_etx_def Let_def)
next
  case False
  have "scan_etx raw (length raw - 2) \<noteq> None"
    using p by (auto simp: scan_etx_None)
  then obtain q where q: "scan_etx raw (length raw - 2) = Some q" by auto
  from scan_etx_Some [OF q] p have "q = p" by (intro last_etx_unique [of q _ raw p]) auto
  with q False len show ?thesis by (simp add: locate_etx_def Let_def)
qed

lemma locate_etx_none:
  assumes len: "7 \<le> length raw"
    and none: "\<forall>i. 5 \<le> i \<and> i \<le> length raw - 2 \<longrightarrow> raw ! i \<noteq> ETX"
  shows "locate_etx raw = Inl (FrameError ETXNotFound)"
proof -
  from none len have "raw ! (length raw - 2) \<noteq> ETX" by simp
  moreover from none have "scan_etx raw (length raw - 2) = None" by (simp add: scan_etx_None)
  ultimately show ?thesis using len by (simp add: locate_etx_def Let_def)
qed

text \<open>
  Claim C4. For a buffer of at least 7 bytes that starts with STX: if the byte at
  \<open>length - 2\<close> is ETX, that position is the ETX position. In general the position used
  is the last index in the window \<open>5 .. length - 2\<close> that holds ETX (the first one met
  when scanning backward from \<open>length - 2\<close>). If the window holds no ETX, \<open>parse\<close> fails
  with the ETX-not-found frame error. Whenever \<open>parse\<close> returns, the payload is
  \<open>raw[5:etx_pos]\<close>, and it does return so when the checksum is not validated and bytes
  1 to 4 are a command and a subcommand code.
\<close>

theorem parse_etx_location:
  assumes len: "7 \<le> length raw" and stx: "raw ! 0 = STX"
  shows "(raw ! (length raw - 2) = ETX \<longrightarrow> locate_etx raw = Inr (length raw - 2))
    \<and> ((\<forall>i. 5 \<le> i \<and> i \<le> length raw - 2 \<longrightarrow> raw ! i \<noteq> ETX)
         \<longrightarrow> parse raw validate = Inl (FrameError ETXNotFound))
    \<and> (\<forall>p. 5 \<le> p \<and> p \<le> length raw - 2 \<and> raw ! p = ETX
              \<and> (\<forall>i. p < i \<and> i \<le> length raw - 2 \<longrightarrow> raw ! i \<noteq> ETX)
         \<longrightarrow> locate_etx raw = Inr p
             \<and> (\<forall>f d. parse raw validate = Inr (f, d) \<longrightarrow> d = slice raw 5 p \<and> data f = slice raw 5 p)
             \<and> (\<forall>c s. Command_of (slice raw 1 3) = Some c \<and> SubCommand_of (slice raw 3 5) = Some s
                  \<longrightarrow> parse raw False
                      = Inr (\<lparr>command = c, subcommand = s, data = slice raw 5 p\<rparr>, slice raw 5 p)))"
proof (intro conjI allI impI)
  assume "raw ! (length raw - 2) = ETX"
  with len show "locate_etx raw = Inr (length raw - 2)"
    by (simp add: locate_etx_def Let_def)
next
  assume "\<forall>i. 5 \<le> i \<and> i \<le> length raw - 2 \<longrightarrow> raw ! i \<noteq> ETX"
  from locate_etx_none [OF len this] len stx
  show "parse raw validate = Inl (FrameError ETXNotFound)"
    by (simp add: parse_def)
next
  fix p
  assume p: "5 \<le> p \<and> p \<le> length raw - 2 \<and> raw ! p = ETX
              \<and> (\<forall>i. p < i \<and> i \<le> length raw - 2 \<longrightarrow> raw ! i \<noteq> ETX)"
  from locate_etx_last [OF len p] show loc: "locate_etx raw = Inr p" .
  { fix f d assume "parse raw validate = Inr (f, d)"
    with loc len stx show "d = slice raw 5 p"
      by (auto simp: parse_def Let_def split: if_splits option.splits)
  }
  { fix f d assume "parse raw validate = Inr (f, d)"
    with loc len stx show "data f = slice raw 5 p"
      by (auto simp: parse_def Let_def split: if_splits option.splits)
  }
  { fix c s assume "Command_of (slice raw 1 3) = Some c \<and> SubCommand_of (slice raw 3 5) = Some s"
    with loc len stx
    show "parse raw False = Inr (\<lparr>command = c, subcommand = s, data = slice raw 5 p\<rparr>, slice raw 5 p)"
      by (simp add: parse_def Let_def del: One_nat_def)
  }
qed

theorem parse_etx_location_witness:
  "7 \<le> length [0x02, 0x4D, 0x43, 0x44, 0x43, 0x03, 0x41, 0x03, 0x42, 0x43 :: byte]
   \<and> [0x02, 0x4D, 0x43, 0x44, 0x43, 0x03, 0x41, 0x03, 0x42, 0x43] ! 0 = STX
   \<and> locate_etx [0x02, 0x4D, 0x43, 0x44, 0x43, 0x03, 0x41, 0x03, 0x42, 0x43] = Inr 7
   \<and> parse [0x02, 0x4D, 0x43, 0x44, 0x43, 0x03, 0x41, 0x03, 0x42, 0x43] False
       = Inr (\<lparr>command = MC, subcommand = DC, data = [0x03, 0x41]\<rparr>, [0x03, 0x41])"
proof -
  let ?raw = "[0x02, 0x4D, 0x43, 0x44, 0x43, 0x03, 0x41, 0x03, 0x42, 0x43 :: byte]"
  have h1: "7 \<le> length ?raw" by simp
  have h2: "?raw ! 0 = STX" by (simp add: STX_def)
  have "\<forall>i. 7 < i \<and> i \<le> length ?raw - 2 \<longrightarrow> ?raw ! i \<noteq> ETX"
  proof (intro allI impI)
    fix i :: nat assume "7 < i \<and> i \<le> length ?raw - 2"
    then have "i = 8" by simp
    then show "?raw ! i \<noteq> ETX" by (simp add: ETX_def)
  qed
  then have h3: "5 \<le> (7::nat) \<and> 7 \<le> length ?raw - 2 \<and> ?raw ! 7 = ETX
            \<and> (\<forall>i. 7 < i \<and> i \<le> length ?raw - 2 \<longrightarrow> ?raw ! i \<noteq> ETX)"
    by (simp add: ETX_def)
  have h4: "Command_of (slice ?raw 1 3) = Some MC \<and> SubCommand_of (slice ?raw 3 5) = Some DC"
    by (simp add: slice_def Command_of_def SubCommand_of_def)
  have sl: "slice ?raw 5 7 = [0x03, 0x41]" by (simp add: slice_def)
  from parse_etx_location [OF h1 h2, of False] h3 h4
  have "locate_etx ?raw = Inr 7
        \<and> parse ?raw False = Inr (\<lparr>command = MC, subcommand = DC, data = slice ?raw 5 7\<rparr>, slice ?raw 5 7)"
    by blast
  with h1 h2 sl show ?thesis by simp
qed

section \<open>Properties of the domain decoders\<close>

subsection \<open>DeadBolt.get_status\<close>

text \<open>
  Claim C6. When the dispatch succeeds, \<open>get_status\<close> returns (Unknown, Unknown) for a
  payload shorter than 7 bytes, without raising; otherwise the door state is Opened for
  payload byte 0 = 'O' (0x4F), Closed for 'C' (0x43) and Unknown for anything else, and
  the lock state is Locked for payload byte 6 = 'L' (0x4C), Unlocked for 'U' (0x55) and
  Unknown for anything else. The witness runs the payloads \<open>"O     U     "\<close>,
  \<open>"C     L     "\<close> and a 5-byte payload.
\<close>

theorem get_status_decodes:
  assumes "io RQ ID [] st = (Inr (True, dat), st')"
  shows "get_status io st =
    (Inr (if length dat < 7 then (DoorStatus.UNKNOWN, LockStatus.UNKNOWN)
          else (if dat ! 0 = 0x4F then OPENED else if dat ! 0 = 0x43 then CLOSED
                else DoorStatus.UNKNOWN,
                if dat ! 6 = 0x4C then LOCKED else if dat ! 6 = 0x55 then UNLOCKED
                else LockStatus.UNKNOWN)), st')"
  using assms
  by (simp add: get_status_def MIN_RESPONSE_LENGTH_def py_index_def dict_get_def
      DOOR_STATUS_MAP_def LOCK_STATUS_MAP_def Let_def)

theorem get_status_decodes_witness:
  "get_status (replying True (bytes_of ''O     U     '')) () = (Inr (OPENED, UNLOCKED), ())
   \<and> get_status (replying True (bytes_of ''C     L     '')) () = (Inr (CLOSED, LOCKED), ())
   \<and> get_status (replying True (bytes_of ''O    '')) ()
       = (Inr (DoorStatus.UNKNOWN, LockStatus.UNKNOWN), ())"
proof -
  have r: "\<And>p. replying True p RQ ID [] () = (Inr (True, p), ())"
    by (simp add: replying_def)
  show ?thesis
    using get_status_decodes [where io = "replying True (bytes_of ''O     U     '')"
        and st = "()" and dat = "bytes_of ''O     U     ''" and st' = "()", OF r]
      get_status_decodes [where io = "replying True (bytes_of ''C     L     '')"
        and st = "()" and dat = "bytes_of ''C     L     ''" and st' = "()", OF r]
      get_status_decodes [where io = "replying True (bytes_of ''O    '')"
        and st = "()" and dat = "bytes_of ''O    ''" and st' = "()", OF r]
    by (simp add: bytes_of_def)
qed








subsection \<open>LoadCell.read_all\<close>







lemma strip_both_sides:
  "rev (dropWhile P (rev (dropWhile P s))) = dropWhile P (rev (dropWhile P (rev s)))"
proof (induction s)
  case Nil
  then show ?case by simp
next
  case (Cons x xs)
  show ?case
  proof (cases "P x")
    case True
    show ?thesis
    proof (cases "\<forall>y \<in> set xs. P y")
      case all: True
      then have "dropWhile P xs = []" "dropWhile P (rev xs) = []"
        by (simp_all add: dropWhile_eq_Nil_conv)
      with True all show ?thesis
        by (auto simp: dropWhile_append dropWhile_eq_Nil_conv dest: set_dropWhileD)
    next
      case False
      with True Cons show ?thesis by (auto simp: dropWhile_append)
    qed
  next
    case False
    then show ?thesis by (simp add: dropWhile_append)
  qed
qed

lemma py_strip_rstrip: "py_strip s = dropWhile py_isspace (py_rstrip s)"
  by (simp add: py_strip_def py_rstrip_def strip_both_sides)

lemma decode_ascii_ok:
  "\<forall>b \<in> set dat. unat b < 128 \<Longrightarrow> decode_ascii (take n dat) = Inr (map unat (take n dat))"
  by (auto simp: decode_ascii_def list_all_iff dest: in_set_takeD)

subsection \<open>SystemManager.get_info\<close>

text \<open>
  Claim C8, as amended. On a successful dispatch whose payload is ASCII, \<open>get_info\<close>
  returns a SystemInfo whose production number is the first 11 payload bytes decoded as
  ASCII and trimmed of whitespace at both ends (\<open>str.strip\<close>: the right-trimmed string
  with its leading whitespace removed too), and whose raw field is the full payload.
\<close>

theorem get_info_production_number:
  assumes "io RQ MI [] st = (Inr (True, dat), st')" and "\<forall>b \<in> set dat. unat b < 128"
  shows "get_info io st
           = (Inr \<lparr>production_number = py_strip (map unat (take 11 dat)), info_raw = dat\<rparr>, st')
         \<and> py_strip (map unat (take 11 dat))
           = dropWhile py_isspace (py_rstrip (map unat (take 11 dat)))"
  using assms
  by (simp add: get_info_def Let_def slice_def PRODUCTION_NUMBER_LENGTH_def decode_ascii_ok
      py_strip_rstrip)

theorem get_info_production_number_witness:
  "replying True (bytes_of ''TEST       '') RQ MI [] () = (Inr (True, bytes_of ''TEST       ''), ())
   \<and> list_all (\<lambda>b. unat b < 128) (bytes_of ''TEST       '')
   \<and> get_info (replying True (bytes_of ''TEST       '')) ()
       = (Inr \<lparr>production_number = str_of ''TEST'', info_raw = bytes_of ''TEST       ''\<rparr>, ())"
proof -
  let ?p = "bytes_of ''TEST       ''"
  have r: "replying True ?p RQ MI [] () = (Inr (True, ?p), ())"
    by (simp add: replying_def)
  have a: "\<forall>b \<in> set ?p. unat b < 128"
    by (simp add: bytes_of_def)
  have e: "py_strip (map unat (take 11 ?p)) = str_of ''TEST''"
    by (simp add: bytes_of_def str_of_def py_strip_def py_isspace_def)
  from get_info_production_number [where io = "replying True ?p" and st = "()" and dat = ?p
      and st' = "()", OF r a] e
  have "get_info (replying True ?p) ()
       = (Inr \<lparr>production_number = str_of ''TEST'', info_raw = ?p\<rparr>, ())"
    by simp
  moreover from a have "list_all (\<lambda>b. unat b < 128) ?p"
    by (simp only: list_all_iff)
  ultimately show ?thesis using r by blast
qed

text \<open>
  The claim as stated fails on a payload with leading whitespace: for \<open>" AB"\<close> the code
  returns \<open>"AB"\<close>, while right-trimming alone keeps the leading blank.
\<close>

theorem get_info_strips_leading_whitespace:
  "fst (get_info (replying True (bytes_of '' AB'')) ())
     = Inr \<lparr>production_number = str_of ''AB'', info_raw = bytes_of '' AB''\<rparr>
   \<and> spec_production_number (bytes_of '' AB'') = str_of '' AB''
   \<and> str_of ''AB'' \<noteq> str_of '' AB''"
  by (simp add: get_info_def replying_def Let_def slice_def PRODUCTION_NUMBER_LENGTH_def
      decode_ascii_def bytes_of_def str_of_def py_strip_def py_rstrip_def py_isspace_def
      spec_production_number_def)

subsection \<open>SystemManager.set_production_number\<close>

lemma encode_ascii_ok: "list_all (\<lambda>c. c < 128) s \<Longrightarrow> encode_ascii s = Inr (map of_nat s)"
  by (simp add: encode_ascii_def)

lemma unat_of_nat_ascii: "c < 128 \<Longrightarrow> unat (of_nat c :: byte) = c"
  by (simp add: unat_of_nat)

lemma map_unat_of_nat_ascii:
  "list_all (\<lambda>c. c < 128) s \<Longrightarrow> map unat (map of_nat s :: bytes) = s"
  by (induction s) (simp_all add: unat_of_nat_ascii del: unat_of_nat)

text \<open>
  Claim C9. Called with the empty string or with a string that has a non-ASCII character,
  \<open>set_production_number\<close> returns False and never calls the dispatcher: the record of
  calls and the dispatcher's state are unchanged, so no send or receive takes place. For
  every non-empty ASCII string it calls the dispatcher exactly once, with MC, WP and the
  ASCII encoding of the string (one byte per character, with the character's code), and
  returns the success flag of that call.
\<close>

theorem set_production_number_dispatch:
  "((number = [] \<or> \<not> list_all (\<lambda>c. c < 128) number) \<longrightarrow>
       set_production_number (recording io) number (calls, st) = (Inr False, (calls, st)))
   \<and> (number \<noteq> [] \<and> list_all (\<lambda>c. c < 128) number \<longrightarrow>
       snd (set_production_number (recording io) number (calls, st))
         = (calls @ [(MC, WP, map of_nat number)], snd (io MC WP (map of_nat number) st))
       \<and> fst (set_production_number (recording io) number (calls, st))
         = (case fst (io MC WP (map of_nat number) st) of
              Inl e \<Rightarrow> Inl e | Inr r \<Rightarrow> Inr (fst r))
       \<and> map unat (map of_nat number :: bytes) = number)"
proof (intro conjI impI)
  assume "number = [] \<or> \<not> list_all (\<lambda>c. c < 128) number"
  then show "set_production_number (recording io) number (calls, st) = (Inr False, (calls, st))"
    by (auto simp: set_production_number_def encode_ascii_def)
next
  assume a: "number \<noteq> [] \<and> list_all (\<lambda>c. c < 128) number"
  obtain r st' where io: "io MC WP (map of_nat number) st = (r, st')"
    by (cases "io MC WP (map of_nat number) st")
  from a io show "snd (set_production_number (recording io) number (calls, st))
         = (calls @ [(MC, WP, map of_nat number)], snd (io MC WP (map of_nat number) st))"
    by (cases r) (auto simp: set_production_number_def encode_ascii_ok recording_def)
  from a io show "fst (set_production_number (recording io) number (calls, st))
         = (case fst (io MC WP (map of_nat number) st) of
              Inl e \<Rightarrow> Inl e | Inr r \<Rightarrow> Inr (fst r))"
    by (cases r) (auto simp: set_production_number_def encode_ascii_ok recording_def)
  from a show "map unat (map of_nat number :: bytes) = number"
    by (simp only: map_unat_of_nat_ascii)
qed

theorem set_production_number_dispatch_witness:
  "set_production_number (recording (replying True [])) [] ([], ()) = (Inr False, ([], ()))
   \<and> set_production_number (recording (replying True [])) [0xE9] ([], ()) = (Inr False, ([], ()))
   \<and> set_production_number (recording (replying True [])) (str_of ''NEWPROD1234'') ([], ())
       = (Inr True, ([(MC, WP, bytes_of ''NEWPROD1234'')], ()))"
proof -
  let ?io = "replying True [] :: unit dispatcher"
  have 1: "set_production_number (recording ?io) [] ([], ()) = (Inr False, ([], ()))"
    using set_production_number_dispatch [where number = "[]" and io = ?io and calls = "[]"
        and st = "()"]
    by simp
  have 2: "set_production_number (recording ?io) [0xE9] ([], ()) = (Inr False, ([], ()))"
    using set_production_number_dispatch [where number = "[0xE9]" and io = ?io
        and calls = "[]" and st = "()"]
    by simp
  have n: "str_of ''NEWPROD1234'' \<noteq> [] \<and> list_all (\<lambda>c. c < 128) (str_of ''NEWPROD1234'')"
    by (simp add: str_of_def)
  have b: "map of_nat (str_of ''NEWPROD1234'') = bytes_of ''NEWPROD1234''"
    by (simp add: str_of_def bytes_of_def)
  from set_production_number_dispatch [where number = "str_of ''NEWPROD1234''" and io = ?io
        and calls = "[]" and st = "()"] n
  have "snd (set_production_number (recording ?io) (str_of ''NEWPROD1234'') ([], ()))
         = ([(MC, WP, map of_nat (str_of ''NEWPROD1234''))], ())
       \<and> fst (set_production_number (recording ?io) (str_of ''NEWPROD1234'') ([], ()))
         = Inr True"
    by (simp add: replying_def)
  with b have 3: "set_production_number (recording ?io) (str_of ''NEWPROD1234'') ([], ())
       = (Inr True, ([(MC, WP, bytes_of ''NEWPROD1234'')], ()))"
    by (simp add: prod_eq_iff)
  from 1 2 3 show ?thesis by simp
qed

section \<open>Properties of the command dispatcher\<close>

lemma attempt_body_receive_timeout:
  assumes conn: "is_connected st"
    and rd: "fst (recv_loop (read_outcomes (dev (exchanges st))) [] False) = Inl TimeoutError"
  shows "\<exists>st'. attempt_body io dev f tmo st
                  = (Caught (case write_outcome (dev (exchanges st)) of
                               WriteOk \<Rightarrow> TimeoutError
                             | WriteTimeout \<Rightarrow> TimeoutError
                             | WriteFails \<Rightarrow> CommunicationError SendFailed), st')
           \<and> is_connected st' \<and> exchanges st' = exchanges st + 1
           \<and> events st' = events st @ [PortWrite f]"
proof -
  obtain rest where rl:
    "recv_loop (read_outcomes (dev (exchanges st))) [] False = (Inl TimeoutError, rest)"
    using rd by (cases "recv_loop (read_outcomes (dev (exchanges st))) [] False") simp
  define st1 where
    "st1 = st\<lparr>inbuf := read_outcomes (dev (exchanges st)), exchanges := exchanges st + 1,
              events := events st @ [PortWrite f]\<rparr>"
  have c1: "is_connected st1" and i1: "inbuf st1 = read_outcomes (dev (exchanges st))"
    and x1: "exchanges st1 = exchanges st + 1" and e1: "events st1 = events st @ [PortWrite f]"
    using conn by (simp_all add: is_connected_def st1_def)
  have c2: "is_connected (st1\<lparr>inbuf := rest\<rparr>)"
    using c1 by (simp add: is_connected_def)
  have r: "receive_until_etx t st1 = (Inl TimeoutError, st1\<lparr>inbuf := rest\<rparr>)" for t
    using c1 rl by (simp add: receive_until_etx_def i1)
  show ?thesis
  proof (cases "write_outcome (dev (exchanges st))")
    case WriteOk
    with conn have s: "send dev f st = (Inr (length f), st1)"
      by (simp add: send_def Let_def st1_def)
    have "attempt_body io dev f tmo st = (Caught TimeoutError, st1\<lparr>inbuf := rest\<rparr>)"
      by (simp add: attempt_body_def s r outer_except_def Let_def)
    with WriteOk c2 x1 e1 show ?thesis by simp
  next
    case WriteTimeout
    with conn have s: "send dev f st = (Inl TimeoutError, st1)"
      by (simp add: send_def Let_def st1_def)
    have "attempt_body io dev f tmo st = (Caught TimeoutError, st1)"
      by (simp add: attempt_body_def s outer_except_def)
    with WriteTimeout c1 x1 e1 show ?thesis by simp
  next
    case WriteFails
    with conn have s: "send dev f st = (Inl (CommunicationError SendFailed), st1)"
      by (simp add: send_def Let_def st1_def)
    have "attempt_body io dev f tmo st = (Caught (CommunicationError SendFailed), st1)"
      by (simp add: attempt_body_def s outer_except_def)
    with WriteFails c1 x1 e1 show ?thesis by simp
  qed
qed

text \<open>
  Claim C2, as amended. For every connected dispatcher with \<open>retry_count = 3\<close>, a retry
  delay that \<open>time.sleep\<close> accepts (a non-negative number, not NaN) and a channel whose
  receive always times out, \<open>send_command\<close> hands the frame to the port exactly 3 times,
  sleeps \<open>retry_delay\<close> between consecutive attempts and not after the last, raises
  nothing, and returns the plain failure value \<open>(False, b'')\<close>. The last error seen is
  written to the error log and is no part of the returned value. (It is the timeout; where
  the third write itself fails, it is the error of that write.)
\<close>

theorem send_command_three_timeouts:
  assumes rc: "retry_count io = 3"
    and conn: "is_connected st"
    and slp: "time_sleep (retry_delay io) = None"
    and dev: "\<forall>k. fst (recv_loop (read_outcomes (dev k)) [] False) = Inl TimeoutError"
  shows "fst (send_command time_sleep io dev c s d tmo st) = Inr (False, [])
     \<and> events (snd (send_command time_sleep io dev c s d tmo st))
         = events st @ [PortWrite (build_command_frame c s d), Slept (retry_delay io),
                        PortWrite (build_command_frame c s d), Slept (retry_delay io),
                        PortWrite (build_command_frame c s d),
                        LoggedFailure 3
                          (Some (case write_outcome (dev (exchanges st + 2)) of
                                   WriteOk \<Rightarrow> TimeoutError
                                 | WriteTimeout \<Rightarrow> TimeoutError
                                 | WriteFails \<Rightarrow> CommunicationError SendFailed))]
     \<and> exchanges (snd (send_command time_sleep io dev c s d tmo st)) = exchanges st + 3"
proof -
  let ?f = "build_command_frame c s d"
  let ?err = "\<lambda>k. case write_outcome (dev k) of
                     WriteOk \<Rightarrow> TimeoutError
                   | WriteTimeout \<Rightarrow> TimeoutError
                   | WriteFails \<Rightarrow> CommunicationError SendFailed"
  have rd: "fst (recv_loop (read_outcomes (dev k)) [] False) = Inl TimeoutError" for k
    using dev by simp
  obtain s1 where a1: "attempt_body io dev ?f tmo st = (Caught (?err (exchanges st)), s1)"
    and c1: "is_connected s1" and x1: "exchanges s1 = exchanges st + 1"
    and e1: "events s1 = events st @ [PortWrite ?f]"
    using attempt_body_receive_timeout [where dev = dev and st = st and io = io and f = ?f
        and tmo = tmo, OF conn rd] by blast
  define t1 where "t1 = s1\<lparr>events := events s1 @ [Slept (retry_delay io)]\<rparr>"
  have ct1: "is_connected t1" and xt1: "exchanges t1 = exchanges st + 1"
    and et1: "events t1 = events st @ [PortWrite ?f, Slept (retry_delay io)]"
    using c1 x1 e1 by (simp_all add: t1_def is_connected_def)
  obtain s2 where a2: "attempt_body io dev ?f tmo t1 = (Caught (?err (exchanges t1)), s2)"
    and c2: "is_connected s2" and x2: "exchanges s2 = exchanges t1 + 1"
    and e2: "events s2 = events t1 @ [PortWrite ?f]"
    using attempt_body_receive_timeout [where dev = dev and st = t1 and io = io and f = ?f
        and tmo = tmo, OF ct1 rd] by blast
  define t2 where "t2 = s2\<lparr>events := events s2 @ [Slept (retry_delay io)]\<rparr>"
  have ct2: "is_connected t2" and xt2: "exchanges t2 = exchanges st + 2"
    and et2: "events t2 = events st @ [PortWrite ?f, Slept (retry_delay io),
                                       PortWrite ?f, Slept (retry_delay io)]"
    using c2 x2 e2 xt1 et1 by (simp_all add: t2_def is_connected_def)
  obtain s3 where a3: "attempt_body io dev ?f tmo t2 = (Caught (?err (exchanges t2)), s3)"
    and c3: "is_connected s3" and x3: "exchanges s3 = exchanges t2 + 1"
    and e3: "events s3 = events t2 @ [PortWrite ?f]"
    using attempt_body_receive_timeout [where dev = dev and st = t2 and io = io and f = ?f
        and tmo = tmo, OF ct2 rd] by blast
  have n3: "nat (retry_count io) = Suc (Suc (Suc 0))"
    using rc by simp
  have "retry_loop time_sleep io dev ?f tmo (Suc (Suc (Suc 0))) 0 None st
          = (Exhausted (Some (?err (exchanges t2))), s3)"
    using a1 a2 a3 rc slp by (simp add: t1_def t2_def)
  then have loop: "retry_loop time_sleep io dev ?f tmo (nat (retry_count io)) 0 None st
                = (Exhausted (Some (?err (exchanges st + 2))), s3)"
    by (simp only: n3 xt2)
  have "send_command time_sleep io dev c s d tmo st
          = (Inr (False, []),
             s3\<lparr>events := events s3
                    @ [LoggedFailure (retry_count io) (Some (?err (exchanges st + 2)))]\<rparr>)"
    using conn by (simp add: send_command_def loop)
  then show ?thesis
    using e3 x3 et2 xt2 rc by simp
qed

lemma silent_times_out:
  "\<forall>k. fst (recv_loop (read_outcomes (silent_device k)) [] False) = Inl TimeoutError"
  by (simp add: silent_device_def)

theorem send_command_three_timeouts_witness:
  "retry_count \<lparr>timeout = 1000 :: int, retry_count = 3, retry_delay = 100, validate_lrc = False\<rparr> = 3
   \<and> is_connected \<lparr>is_open = True, inbuf = [], exchanges = 0, events = [] :: int event list\<rparr>
   \<and> sleep_nonnegative
        (retry_delay \<lparr>timeout = 1000 :: int, retry_count = 3, retry_delay = 100, validate_lrc = False\<rparr>)
       = None
   \<and> fst (send_command sleep_nonnegative
             \<lparr>timeout = 1000, retry_count = 3, retry_delay = 100, validate_lrc = False\<rparr>
             silent_device RQ ID [] None
             \<lparr>is_open = True, inbuf = [], exchanges = 0, events = []\<rparr>) = Inr (False, [])
   \<and> events (snd (send_command sleep_nonnegative
             \<lparr>timeout = 1000, retry_count = 3, retry_delay = 100, validate_lrc = False\<rparr>
             silent_device RQ ID [] None
             \<lparr>is_open = True, inbuf = [], exchanges = 0, events = []\<rparr>))
       = [PortWrite [0x02, 0x52, 0x51, 0x49, 0x44, 0x03, 0x0D], Slept 100,
          PortWrite [0x02, 0x52, 0x51, 0x49, 0x44, 0x03, 0x0D], Slept 100,
          PortWrite [0x02, 0x52, 0x51, 0x49, 0x44, 0x03, 0x0D],
          LoggedFailure 3 (Some TimeoutError)]"
proof -
  let ?io = "\<lparr>timeout = 1000 :: int, retry_count = 3, retry_delay = 100, validate_lrc = False\<rparr>"
  let ?st = "\<lparr>is_open = True, inbuf = [], exchanges = 0, events = [] :: int event list\<rparr>"
  have rc: "retry_count ?io = 3" by simp
  have conn: "is_connected ?st" by (simp add: is_connected_def)
  have slp: "sleep_nonnegative (retry_delay ?io) = None" by (simp add: sleep_nonnegative_def)
  have f: "build_command_frame RQ ID [] = [0x02, 0x52, 0x51, 0x49, 0x44, 0x03, 0x0D]"
    by (simp add: build_command_frame_def build_def calculate_lrc_def STX_def ETX_def)
  have w: "write_outcome (silent_device k) = WriteOk" for k
    by (simp add: silent_device_def)
  from send_command_three_timeouts [where time_sleep = sleep_nonnegative and io = ?io
      and st = ?st and dev = silent_device and c = RQ and s = ID and d = "[]" and tmo = None,
      OF rc conn slp silent_times_out]
    f rc conn slp
  show ?thesis by (simp add: w)
qed

text \<open>
  The claim as stated fails in three ways, each on a device whose receive always times
  out and with \<open>retry_count = 3\<close>.
  \<^item> On a board that is not connected the guard at the top of \<open>send_command\<close> raises
    CommunicationError, and nothing is written.
  \<^item> With the retry delay \<open>-1\<close> the \<open>time.sleep\<close> after the first attempt raises
    ValueError, which leaves \<open>send_command\<close> after a single write.
  \<^item> The returned failure does not carry the last error seen: on the device that never
    answers the last error is the timeout, on the device whose third write fails it is the
    communication error of that write; \<open>send_command\<close> returns the same value
    \<open>(False, b'')\<close> in both runs, and the two errors differ only in the log.
\<close>

theorem send_command_raises_or_hides_last_error:
  "send_command sleep_nonnegative
       \<lparr>timeout = 1000, retry_count = 3, retry_delay = 100, validate_lrc = False\<rparr>
       silent_device RQ ID [] None
       \<lparr>is_open = False, inbuf = [], exchanges = 0, events = []\<rparr>
     = (Inl (CommunicationError NotConnectedToBoard),
        \<lparr>is_open = False, inbuf = [], exchanges = 0, events = []\<rparr>)
   \<and> fst (send_command sleep_nonnegative
          \<lparr>timeout = 1000, retry_count = 3, retry_delay = - 1, validate_lrc = False\<rparr>
          silent_device RQ ID [] None
          \<lparr>is_open = True, inbuf = [], exchanges = 0, events = []\<rparr>) = Inl ValueError
   \<and> events (snd (send_command sleep_nonnegative
          \<lparr>timeout = 1000, retry_count = 3, retry_delay = - 1, validate_lrc = False\<rparr>
          silent_device RQ ID [] None
          \<lparr>is_open = True, inbuf = [], exchanges = 0, events = []\<rparr>))
       = [PortWrite [0x02, 0x52, 0x51, 0x49, 0x44, 0x03, 0x0D]]
   \<and> fst (send_command sleep_nonnegative
          \<lparr>timeout = 1000, retry_count = 3, retry_delay = 100, validate_lrc = False\<rparr>
          silent_device RQ ID [] None
          \<lparr>is_open = True, inbuf = [], exchanges = 0, events = []\<rparr>) = Inr (False, [])
   \<and> last (events (snd (send_command sleep_nonnegative
          \<lparr>timeout = 1000, retry_count = 3, retry_delay = 100, validate_lrc = False\<rparr>
          silent_device RQ ID [] None
          \<lparr>is_open = True, inbuf = [], exchanges = 0, events = []\<rparr>)))
       = LoggedFailure 3 (Some TimeoutError)
   \<and> fst (send_command sleep_nonnegative
          \<lparr>timeout = 1000, retry_count = 3, retry_delay = 100, validate_lrc = False\<rparr>
          third_write_fails_device RQ ID [] None
          \<lparr>is_open = True, inbuf = [], exchanges = 0, events = []\<rparr>) = Inr (False, [])
   \<and> last (events (snd (send_command sleep_nonnegative
          \<lparr>timeout = 1000, retry_count = 3, retry_delay = 100, validate_lrc = False\<rparr>
          third_write_fails_device RQ ID [] None
          \<lparr>is_open = True, inbuf = [], exchanges = 0, events = []\<rparr>)))
       = LoggedFailure 3 (Some (CommunicationError SendFailed))
   \<and> fst (recv_loop (read_outcomes (third_write_fails_device 0)) [] False) = Inl TimeoutError
   \<and> fst (recv_loop (read_outcomes (third_write_fails_device 1)) [] False) = Inl TimeoutError
   \<and> fst (recv_loop (read_outcomes (third_write_fails_device 2)) [] False) = Inl TimeoutError"
  by (simp add: send_command_def is_connected_def numeral_3_eq_3 attempt_body_def send_def
      receive_until_etx_def silent_device_def third_write_fails_device_def outer_except_def
      sleep_nonnegative_def build_command_frame_def build_def calculate_lrc_def STX_def ETX_def
      Let_def)

subsection \<open>Exceptions that can leave the dispatcher\<close>

lemma send_raises:
  "send dev dat st = (Inl e, st') \<Longrightarrow> is_Timeout_or_Communication e"
  by (auto simp: send_def Let_def split: if_splits port_write.splits)

lemma recv_loop_raises:
  "recv_loop rs dat etx = (Inl e, rest) \<Longrightarrow> is_Timeout_or_Communication e"
  by (induction rs dat etx rule: recv_loop.induct)
     (auto simp: Let_def split: if_splits port_read.splits)

lemma receive_until_etx_raises:
  "receive_until_etx t st = (Inl e, st') \<Longrightarrow> is_Timeout_or_Communication e"
  by (auto simp: receive_until_etx_def split: if_splits prod.splits dest: recv_loop_raises)

lemma locate_etx_raises: "locate_etx raw = Inl e \<Longrightarrow> is_IOBoardError e"
  by (auto simp: locate_etx_def Let_def split: if_splits option.splits)

lemma check_lrc_raises: "check_lrc raw p = Some e \<Longrightarrow> is_IOBoardError e"
  by (auto simp: check_lrc_def Let_def split: if_splits)

lemma parse_raises: "parse raw v = Inl e \<Longrightarrow> is_IOBoardError e"
  by (auto simp: parse_def Let_def split: if_splits sum.splits option.splits
      dest: locate_etx_raises check_lrc_raises)

lemma attempt_body_catches: "attempt_body io dev f tmo st \<noteq> (Uncaught e, st')"
  by (auto simp: attempt_body_def outer_except_def Let_def
      split: prod.splits sum.splits if_splits
      dest: send_raises receive_until_etx_raises parse_raises)

lemma retry_loop_raises:
  "retry_loop time_sleep io dev f tmo k a lerr st = (Raised e, st')
     \<Longrightarrow> time_sleep (retry_delay io) = Some e"
proof (induction k arbitrary: a lerr st)
  case 0
  then show ?case by simp
next
  case (Suc k)
  obtain r st1 where ab: "attempt_body io dev f tmo st = (r, st1)"
    by (cases "attempt_body io dev f tmo st")
  show ?case
  proof (cases r)
    case (Done x)
    with ab Suc.prems show ?thesis by simp
  next
    case (Caught x)
    with ab Suc.prems Suc.IH show ?thesis
      by (auto split: if_splits option.splits)
  next
    case (Uncaught x)
    with ab attempt_body_catches show ?thesis by blast
  qed
qed

text \<open>
  On a connected board, and with a retry delay that \<open>time.sleep\<close> accepts, \<open>send_command\<close>
  raises nothing, whatever the device does.
\<close>

lemma send_command_connected_returns:
  assumes conn: "is_connected st" and slp: "time_sleep (retry_delay io) = None"
  shows "\<exists>r st'. send_command time_sleep io dev c s d tmo st = (Inr r, st')"
proof -
  obtain r st1 where l: "retry_loop time_sleep io dev (build_command_frame c s d) tmo
                           (nat (retry_count io)) 0 None st = (r, st1)"
    by (cases "retry_loop time_sleep io dev (build_command_frame c s d) tmo
                 (nat (retry_count io)) 0 None st")
  show ?thesis
  proof (cases r)
    case (Raised e)
    with l have "retry_loop time_sleep io dev (build_command_frame c s d) tmo
                   (nat (retry_count io)) 0 None st = (Raised e, st1)"
      by simp
    then have "time_sleep (retry_delay io) = Some e"
      by (rule retry_loop_raises)
    with slp show ?thesis by simp
  qed (use conn l in \<open>auto simp: send_command_def\<close>)
qed

text \<open>
  With the IOBoard as dispatcher, under the same two conditions, \<open>get_status\<close> always
  returns a pair.
\<close>

lemma get_status_on_connected_board:
  assumes "is_connected st" and "time_sleep (retry_delay io) = None"
  shows "\<exists>door lock st'.
           get_status (IOBoard_dispatcher time_sleep io dev) st = (Inr (door, lock), st')"
proof -
  from send_command_connected_returns [where time_sleep = time_sleep and io = io and st = st,
      OF assms]
  obtain r st' where "send_command time_sleep io dev RQ ID [] None st = (Inr r, st')"
    by blast
  then show ?thesis
    by (cases r)
       (simp add: get_status_def IOBoard_dispatcher_def MIN_RESPONSE_LENGTH_def py_index_def
          Let_def)
qed


end
